theory Spec2Isabelle
  imports Complex_Main
begin

section \<open>Python values, errors and indexing\<close>

text \<open>
  The embedding covers \<^verbatim>\<open>massmod/fit_temperature.py\<close> and
  \<^verbatim>\<open>massmod/posterior_mcmc.py\<close>. Python floats are modelled as \<^typ>\<open>real\<close>
  (rounding, NaN and overflow are outside the model); the one non-real float the
  control flow depends on, \<^verbatim>\<open>-np.inf\<close>, is a constructor of its own. Every
  exception the modelled code can raise is a value of \<open>error\<close>.
\<close>

datatype error = IndexError | ValueError | NameError | TypeError

text \<open>The values \<^verbatim>\<open>lnprior\<close> and \<^verbatim>\<open>lnprob\<close> return: a finite float or \<^verbatim>\<open>-np.inf\<close>.\<close>

datatype lnval = NegInf | Fin real

text \<open>\<^verbatim>\<open>np.isfinite(lp)\<close> on such a value.\<close>

fun isfinite :: "lnval \<Rightarrow> bool" where
  "isfinite NegInf = False"
| "isfinite (Fin x) = True"

text \<open>\<^verbatim>\<open>xs[i]\<close>: a negative index counts from the end, out of range raises.\<close>

definition py_index :: "'a list \<Rightarrow> int \<Rightarrow> error + 'a" where
  "py_index xs i =
     (if 0 \<le> i \<and> i < int (length xs) then Inr (xs ! nat i)
      else if - int (length xs) \<le> i \<and> i < 0 then Inr (xs ! nat (int (length xs) + i))
      else Inl IndexError)"

text \<open>\<^verbatim>\<open>xs[n:]\<close>: a negative start counts from the end and is clipped at 0.\<close>

definition py_slice_from :: "int \<Rightarrow> 'a list \<Rightarrow> 'a list" where
  "py_slice_from n xs =
     (if 0 \<le> n then drop (nat n) xs else drop (nat (int (length xs) + n)) xs)"

text \<open>\<^verbatim>\<open>int(x)\<close> of a float: truncation towards zero.\<close>

definition py_int :: "real \<Rightarrow> int" where
  "py_int x = (if 0 \<le> x then \<lfloor>x\<rfloor> else \<lceil>x\<rceil>)"

section \<open>The log-prior\<close>

text \<open>
  The keyword arguments of \<^verbatim>\<open>lnprior\<close>; their defaults are the constants of
  \<^verbatim>\<open>defaultparams.params\<close>, which the functions below take as a parameter.
\<close>

record bounds =
  c_boundmin :: real
  c_boundmax :: real
  rs_boundmin :: real
  rs_boundmax :: real
  normsersic_boundmin :: real
  normsersic_boundmax :: real

text \<open>
  \<^verbatim>\<open>lnprior(theta, ...)\<close>. The result \<open>None\<close> is Python's \<^verbatim>\<open>None\<close>: the
  function falls off its end when \<^verbatim>\<open>len(theta)\<close> is neither 3 nor 2.
\<close>

definition lnprior :: "bounds \<Rightarrow> real list \<Rightarrow> lnval option" where
  "lnprior B theta =
     (if length theta = 3 then
        (let c = theta ! 0; rs = theta ! 1; normsersic = theta ! 2 in
         if c_boundmin B < c \<and> c < c_boundmax B
            \<and> rs_boundmin B < rs \<and> rs < rs_boundmax B
            \<and> normsersic_boundmin B < normsersic \<and> normsersic < normsersic_boundmax B
         then Some (Fin 0)
         else Some NegInf)
      else if length theta = 2 then
        (let c = theta ! 0; rs = theta ! 1 in
         if c_boundmin B < c \<and> c < c_boundmax B
            \<and> rs_boundmin B < rs \<and> rs < rs_boundmax B
         then Some (Fin 0)
         else Some NegInf)
      else None)"

text \<open>
  The bound of each component of theta, in the order of theta, and the two readings of
  "every component lies within its bound": the open interval, and the half-open interval
  \<open>[min, max)\<close> of the specification.
\<close>

definition bound_pairs :: "bounds \<Rightarrow> (real \<times> real) list" where
  "bound_pairs B =
     [(c_boundmin B, c_boundmax B), (rs_boundmin B, rs_boundmax B),
      (normsersic_boundmin B, normsersic_boundmax B)]"

definition spec_inside_open :: "bounds \<Rightarrow> real list \<Rightarrow> bool" where
  "spec_inside_open B theta =
     list_all (\<lambda>(x, lo, hi). lo < x \<and> x < hi) (zip theta (bound_pairs B))"

definition spec_inside_halfopen :: "bounds \<Rightarrow> real list \<Rightarrow> bool" where
  "spec_inside_halfopen B theta =
     list_all (\<lambda>(x, lo, hi). lo \<le> x \<and> x < hi) (zip theta (bound_pairs B))"

text \<open>Bounds used in the closed examples: \<open>c\<close> in 1..10, \<open>rs\<close> in 100..800, \<open>normsersic\<close> in 5..10.\<close>

definition example_bounds :: bounds where
  "example_bounds =
     \<lparr>c_boundmin = 1, c_boundmax = 10, rs_boundmin = 100, rs_boundmax = 800,
      normsersic_boundmin = 5, normsersic_boundmax = 10\<rparr>"

section \<open>External collaborators\<close>

text \<open>
  \<^verbatim>\<open>clustermeta\<close> (called \<^verbatim>\<open>cluster\<close> in \<^verbatim>\<open>posterior_mcmc.py\<close>): the keys the
  modelled functions read. The flags are Python ints compared with \<^verbatim>\<open>== 1\<close> and
  \<^verbatim>\<open>== 0\<close>. The key \<^verbatim>\<open>'z'\<close> is the field \<open>cl_z\<close>.
\<close>

record clustermeta =
  refindex :: int
  incl_mstar :: int
  incl_mgas :: int
  count_mstar :: int
  cl_z :: real

text \<open>\<^verbatim>\<open>nemodel\<close>: the keys \<^verbatim>\<open>'type'\<close>, \<^verbatim>\<open>'parvals'\<close> and \<^verbatim>\<open>'nefit'\<close>.\<close>

record nemodel =
  ne_type :: string
  parvals :: "real list"
  nefit :: "real list"

text \<open>
  \<^verbatim>\<open>tspec_data\<close> is a table: a list of rows, so that \<^verbatim>\<open>len(tspec_data)\<close> is the
  length of the list and \<^verbatim>\<open>tspec_data['tspec']\<close> the column \<open>map tspec\<close>.
\<close>

record tspec_row =
  radius :: real
  tspec :: real
  tspec_err :: real

text \<open>
  What the two modules import and \<^verbatim>\<open>src/\<close> does not hold: the mass and density
  models (\<^verbatim>\<open>mass_models\<close>, \<^verbatim>\<open>density_models\<close>, \<^verbatim>\<open>gen\<close>), the constants of
  \<^verbatim>\<open>uconv\<close>, \<^verbatim>\<open>params\<close> and \<^verbatim>\<open>cosmo\<close>, and \<^verbatim>\<open>scipy.integrate.quad\<close>. They are
  parameters of every function below. \<open>quad f a b\<close> stands for
  \<^verbatim>\<open>scipy.integrate.quad(f, a, b)[0]\<close>; its integrand may return Python's \<^verbatim>\<open>None\<close>, and
  it may raise.
\<close>

record externals =
  nfw_mass_model :: "real \<Rightarrow> real \<Rightarrow> real \<Rightarrow> real \<Rightarrow> real"
  sersic_mass_model :: "real \<Rightarrow> real \<Rightarrow> clustermeta \<Rightarrow> real"
  gas_mass_model :: "real \<Rightarrow> nemodel \<Rightarrow> real"
  betamodel :: "real list \<Rightarrow> real \<Rightarrow> real"
  cuspedbetamodel :: "real list \<Rightarrow> real \<Rightarrow> real"
  doublebetamodel :: "real list \<Rightarrow> real \<Rightarrow> real"
  doublebetamodel_tied :: "real list \<Rightarrow> real \<Rightarrow> real"
  mgas_intmodel :: "real \<Rightarrow> nemodel \<Rightarrow> real"
  calc_rhocrit :: "real \<Rightarrow> real"
  quad :: "(real \<Rightarrow> real option) \<Rightarrow> real \<Rightarrow> real \<Rightarrow> error + real"
  cosmo_overdensity :: real
  params_mu :: real
  uconv_Msun :: real
  uconv_cm_kpc :: real
  uconv_mA :: real
  uconv_G :: real
  uconv_cm_m :: real
  uconv_joule_kev :: real
  uconv_Msun_kg :: real
  uconv_kpc_m :: real

text \<open>
  The instrumentation: every call of \<^verbatim>\<open>scipy.integrate.quad\<close> inside
  \<^verbatim>\<open>Tmodel_func\<close> is logged with the loop index \<^verbatim>\<open>rr\<close> it is made for and its two
  bounds, and every entry into \<^verbatim>\<open>lnlike\<close> with its theta. A function that is
  instrumented returns its result (or the error it raised) and the events it caused.
\<close>

datatype event = QuadCall nat real real | LnlikeCall "real list"

type_synonym 'a run = "(error + 'a) \<times> event list"

section \<open>The temperature model\<close>

text \<open>
  \<^verbatim>\<open>intmodel\<close>. The powers \<^verbatim>\<open>uconv.cm_kpc**-3.\<close> and \<^verbatim>\<open>r_arr**2.\<close> are written
  with \<open>inverse\<close> and \<open>^\<close>. The result is Python's \<^verbatim>\<open>None\<close> when the type of the
  density model is none of the four.
\<close>

definition intmodel ::
  "externals \<Rightarrow> nemodel \<Rightarrow> real \<Rightarrow> real \<Rightarrow> real \<Rightarrow> real \<Rightarrow> clustermeta \<Rightarrow> real option" where
  "intmodel X nm rs c normsersic r_arr cm =
     (let Mtot0 = nfw_mass_model X r_arr c rs (cl_z cm);
          Mtot1 = (if incl_mstar cm = 1
                   then Mtot0 + sersic_mass_model X r_arr normsersic cm else Mtot0);
          Mtot = (if incl_mgas cm = 1 then Mtot1 + gas_mass_model X r_arr nm else Mtot1);
          unit = (1 / uconv_Msun X) * inverse (uconv_cm_kpc X ^ 3)
      in if ne_type nm = ''single_beta''
           then Some ((betamodel X (parvals nm) r_arr * unit) * Mtot / (r_arr ^ 2))
         else if ne_type nm = ''cusped_beta''
           then Some ((cuspedbetamodel X (parvals nm) r_arr * unit) * Mtot / (r_arr ^ 2))
         else if ne_type nm = ''double_beta''
           then Some ((doublebetamodel X (parvals nm) r_arr * unit) * Mtot / (r_arr ^ 2))
         else if ne_type nm = ''double_beta_tied''
           then Some ((doublebetamodel_tied X (parvals nm) r_arr * unit) * Mtot / (r_arr ^ 2))
         else None)"

text \<open>
  One iteration of the loop of \<^verbatim>\<open>Tmodel_func\<close>, for the index \<open>rr\<close> (which is in
  range of the table): the temperature to append, and the quadrature call made for it.
\<close>

definition Tmodel_step ::
  "externals \<Rightarrow> tspec_row list \<Rightarrow> nemodel \<Rightarrow> clustermeta \<Rightarrow> real \<Rightarrow> real \<Rightarrow> real
     \<Rightarrow> real \<Rightarrow> real \<Rightarrow> real \<Rightarrow> nat \<Rightarrow> real run" where
  "Tmodel_step X tspec_data nm cm c rs normsersic ne_ref tspec_ref radius_ref rr =
     (if int rr = refindex cm then (Inr (tspec (tspec_data ! rr)), [])
      else
        (let radius_selected = radius (tspec_data ! rr) in
         case py_index (nefit nm) (int rr) of
           Inl e \<Rightarrow> (Inl e, [])
         | Inr ne_selected \<Rightarrow>
             (let intfunc = (\<lambda>x. intmodel X nm rs c normsersic x cm);
                  finfac_t = (params_mu X * uconv_mA X * uconv_G X)
                             / (ne_selected * inverse (uconv_cm_m X ^ 3))
              in case quad X intfunc radius_ref radius_selected of
                   Inl e \<Rightarrow> (Inl e, [QuadCall rr radius_ref radius_selected])
                 | Inr q \<Rightarrow>
                     (Inr ((tspec_ref * ne_ref / ne_selected)
                           - (uconv_joule_kev X * finfac_t * (uconv_Msun_kg X ^ 2)
                              * inverse (uconv_kpc_m X ^ 4) * q)),
                      [QuadCall rr radius_ref radius_selected]))))"

text \<open>
  The loop \<^verbatim>\<open>for rr in range(0, len(tspec_data))\<close>, with the list \<^verbatim>\<open>tfit_arr\<close> built
  so far and the events so far. An error raised in an iteration ends the loop.
\<close>

fun Tmodel_loop :: "(nat \<Rightarrow> real run) \<Rightarrow> nat list \<Rightarrow> real list \<Rightarrow> event list \<Rightarrow> (real list) run" where
  "Tmodel_loop step [] tfit_arr evs = (Inr tfit_arr, evs)"
| "Tmodel_loop step (rr # rrs) tfit_arr evs =
     (case step rr of
        (Inl e, new) \<Rightarrow> (Inl e, evs @ new)
      | (Inr t, new) \<Rightarrow> Tmodel_loop step rrs (tfit_arr @ [t]) (evs @ new))"

text \<open>
  \<^verbatim>\<open>Tmodel_func\<close> (its argument \<^verbatim>\<open>ne_data\<close> is never read and is left out). The three
  reference values are read with Python's indexing, which accepts a negative
  \<^verbatim>\<open>refindex\<close>; the loop compares \<^verbatim>\<open>rr == clustermeta['refindex']\<close>.
\<close>

definition Tmodel_func ::
  "externals \<Rightarrow> tspec_row list \<Rightarrow> nemodel \<Rightarrow> clustermeta \<Rightarrow> real \<Rightarrow> real \<Rightarrow> real
     \<Rightarrow> (real list) run" where
  "Tmodel_func X tspec_data nm cm c rs normsersic =
     (case py_index (nefit nm) (refindex cm) of
        Inl e \<Rightarrow> (Inl e, [])
      | Inr ne_ref \<Rightarrow>
          (case py_index (map tspec tspec_data) (refindex cm) of
             Inl e \<Rightarrow> (Inl e, [])
           | Inr tspec_ref \<Rightarrow>
               (case py_index (map radius tspec_data) (refindex cm) of
                  Inl e \<Rightarrow> (Inl e, [])
                | Inr radius_ref \<Rightarrow>
                    Tmodel_loop
                      (Tmodel_step X tspec_data nm cm c rs normsersic ne_ref tspec_ref radius_ref)
                      [0..<length tspec_data] [] [])))"

section \<open>Likelihood and posterior\<close>

text \<open>
  An elementwise numpy operation on two one-dimensional arrays: equal lengths pair up,
  an array of length 1 is broadcast, anything else raises.
\<close>

definition np_binop :: "(real \<Rightarrow> real \<Rightarrow> real) \<Rightarrow> real list \<Rightarrow> real list \<Rightarrow> error + real list" where
  "np_binop f xs ys =
     (if length xs = length ys then Inr (map2 f xs ys)
      else if length xs = 1 then Inr (map (f (hd xs)) ys)
      else if length ys = 1 then Inr (map (\<lambda>x. f x (hd ys)) xs)
      else Inl ValueError)"

text \<open>
  The value \<^verbatim>\<open>lnlike\<close> returns:
  \<^verbatim>\<open>-0.5*np.sum((((y-model)**2.)/(yerr**2.)) + np.log(2.*np.pi*(yerr**2.)))\<close>.
\<close>

definition gauss_loglike :: "real list \<Rightarrow> real list \<Rightarrow> real list \<Rightarrow> error + real" where
  "gauss_loglike y model yerr =
     (case np_binop (\<lambda>a b. a - b) y model of
        Inl e \<Rightarrow> Inl e
      | Inr d \<Rightarrow>
          (case np_binop (\<lambda>a b. a / b) (map (\<lambda>v. v ^ 2) d) (map (\<lambda>v. v ^ 2) yerr) of
             Inl e \<Rightarrow> Inl e
           | Inr q \<Rightarrow>
               (case np_binop (\<lambda>a b. a + b) q (map (\<lambda>v. ln (2 * pi * v ^ 2)) yerr) of
                  Inl e \<Rightarrow> Inl e
                | Inr s \<Rightarrow> Inr (- 0.5 * sum_list s))))"

text \<open>
  The unpacking at the head of \<^verbatim>\<open>lnlike\<close>: \<^verbatim>\<open>c, rs, normsersic = theta\<close> raises on
  a theta of another length, and a flag that is neither 1 nor 0 leaves \<^verbatim>\<open>c\<close> unbound.
\<close>

definition unpack_theta :: "clustermeta \<Rightarrow> real list \<Rightarrow> error + (real \<times> real \<times> real)" where
  "unpack_theta cm theta =
     (if incl_mstar cm = 1 then
        (if length theta = 3 then Inr (theta ! 0, theta ! 1, theta ! 2) else Inl ValueError)
      else if incl_mstar cm = 0 then
        (if length theta = 2 then Inr (theta ! 0, theta ! 1, 0) else Inl ValueError)
      else Inl NameError)"

text \<open>\<^verbatim>\<open>lnlike\<close> (its arguments \<^verbatim>\<open>x\<close> and \<^verbatim>\<open>ne_data\<close> are never read).\<close>

definition lnlike ::
  "externals \<Rightarrow> real list \<Rightarrow> real list \<Rightarrow> real list \<Rightarrow> tspec_row list \<Rightarrow> nemodel
     \<Rightarrow> clustermeta \<Rightarrow> real run" where
  "lnlike X theta y yerr tspec_data nm cm =
     (case unpack_theta cm theta of
        Inl e \<Rightarrow> (Inl e, [LnlikeCall theta])
      | Inr (c, rs, normsersic) \<Rightarrow>
          (case Tmodel_func X tspec_data nm cm c rs normsersic of
             (Inl e, evs) \<Rightarrow> (Inl e, LnlikeCall theta # evs)
           | (Inr model, evs) \<Rightarrow> (gauss_loglike y model yerr, LnlikeCall theta # evs)))"

text \<open>
  \<^verbatim>\<open>lnprob\<close>: \<^verbatim>\<open>lnprior(theta)\<close> is called with its default bounds \<open>P\<close>;
  \<^verbatim>\<open>np.isfinite(None)\<close> raises a TypeError.
\<close>

definition lnprob ::
  "bounds \<Rightarrow> externals \<Rightarrow> real list \<Rightarrow> real list \<Rightarrow> real list \<Rightarrow> tspec_row list \<Rightarrow> nemodel
     \<Rightarrow> clustermeta \<Rightarrow> lnval run" where
  "lnprob P X theta y yerr tspec_data nm cm =
     (case lnprior P theta of
        None \<Rightarrow> (Inl TypeError, [])
      | Some lp \<Rightarrow>
          if \<not> isfinite lp then (Inr NegInf, [])
          else
            (case lnlike X theta y yerr tspec_data nm cm of
               (Inl e, evs) \<Rightarrow> (Inl e, evs)
             | (Inr v, evs) \<Rightarrow> (Inr (case lp of Fin p \<Rightarrow> Fin (p + v) | NegInf \<Rightarrow> NegInf), evs)))"

section \<open>The MCMC stage\<close>

text \<open>
  \<^verbatim>\<open>fit_mcmc\<close>. The ensemble sampler is \<^verbatim>\<open>emcee\<close>'s; after
  \<^verbatim>\<open>sampler.sample(pos, iterations=Nsteps)\<close> has run, \<^verbatim>\<open>sampler.chain\<close> is an array of
  shape \<open>(nwalkers, Nsteps, ndim)\<close>, here a list (walkers) of lists (steps) of thetas.
  The function takes that chain as a parameter and returns the samples
  \<^verbatim>\<open>sampler.chain[:, Nburnin:, :].reshape((-1, ndim))\<close>. The sum
  \<^verbatim>\<open>ml_results + 1e-4*np.random.randn(ndim)\<close> raises unless the lengths agree or
  \<^verbatim>\<open>ml_results\<close> has one element; a flag that is neither 1 nor 0 leaves \<^verbatim>\<open>ndim\<close>
  unbound.
\<close>

definition chain_shape :: "real list list list \<Rightarrow> nat \<Rightarrow> nat \<Rightarrow> nat \<Rightarrow> bool" where
  "chain_shape chain nwalkers nsteps ndim =
     (length chain = nwalkers
      \<and> list_all (\<lambda>walker. length walker = nsteps
                           \<and> list_all (\<lambda>theta. length theta = ndim) walker) chain)"

definition fit_mcmc_ndim :: "clustermeta \<Rightarrow> error + nat" where
  "fit_mcmc_ndim cm =
     (if incl_mstar cm = 1 then Inr 3 else if incl_mstar cm = 0 then Inr 2 else Inl NameError)"

definition fit_mcmc ::
  "clustermeta \<Rightarrow> real list \<Rightarrow> real list list list \<Rightarrow> int \<Rightarrow> error + real list list" where
  "fit_mcmc cm ml_results chain Nburnin =
     (case fit_mcmc_ndim cm of
        Inl e \<Rightarrow> Inl e
      | Inr ndim \<Rightarrow>
          if length chain \<noteq> 0 \<and> length ml_results \<noteq> ndim \<and> length ml_results \<noteq> 1
          then Inl ValueError
          else Inr (concat (map (py_slice_from Nburnin) chain)))"

section \<open>The overdensity radius of one posterior sample\<close>

text \<open>
  The masses \<^verbatim>\<open>(mass_tot, mass_nfw, mass_dev, mass_gas)\<close> of one evaluation.
\<close>

type_synonym masses = "real \<times> real \<times> real \<times> real"

text \<open>
  The integrand \<^verbatim>\<open>intfunc = lambda x: mgas_intmodel(rdelta, nemodel)\<close> that
  \<^verbatim>\<open>calc_rdelta_p\<close> hands to the quadrature, at the integration variable \<open>x\<close>.
\<close>

definition gas_intfunc :: "externals \<Rightarrow> nemodel \<Rightarrow> real \<Rightarrow> real \<Rightarrow> real option" where
  "gas_intfunc X nm rdelta x = Some (mgas_intmodel X rdelta nm)"

text \<open>
  The block that \<^verbatim>\<open>calc_rdelta_p\<close> runs at the seed and again in every iteration: the
  masses inside the radius \<open>r\<close> and the ratio of the mean density to the critical one.
  \<open>mass_dev_prev\<close> is the variable \<^verbatim>\<open>mass_dev\<close> before the block, \<open>None\<close> while it
  is unbound; reading it unbound raises. The division is that of the reals: a radius or
  a critical density of 0, where the floats of the source give an infinity or a NaN, is
  outside the model, and no example below has one.
\<close>

definition eval_masses ::
  "externals \<Rightarrow> nemodel \<Rightarrow> clustermeta \<Rightarrow> real \<Rightarrow> real \<Rightarrow> real \<Rightarrow> real option \<Rightarrow> real
     \<Rightarrow> error + (masses \<times> real)" where
  "eval_masses X nm cl c rs normsersic mass_dev_prev r =
     (let mass_nfw = nfw_mass_model X r c rs (cl_z cl);
          mass_dev_opt = (if count_mstar cl = 1
                          then Some (sersic_mass_model X r normsersic cl * uconv_Msun X)
                          else mass_dev_prev)
      in case quad X (gas_intfunc X nm r) 0 r of
           Inl e \<Rightarrow> Inl e
         | Inr q \<Rightarrow>
             (case mass_dev_opt of
                None \<Rightarrow> Inl NameError
              | Some mass_dev \<Rightarrow>
                  (let mass_gas = q * uconv_Msun X;
                       mass_tot = mass_nfw + mass_dev + mass_gas;
                       rho_crit = calc_rhocrit X (cl_z cl);
                       ratio = (mass_tot / ((4 / 3) * pi * r ^ 3)) / rho_crit
                   in Inr ((mass_tot, mass_nfw, mass_dev, mass_gas), ratio))))"

text \<open>
  The loop \<^verbatim>\<open>while ratio > cosmo.overdensity\<close>. Its state is the integer
  \<^verbatim>\<open>rdelta_tot\<close>, the masses and the ratio of the last evaluation. Nothing bounds the
  number of iterations, so the loop is a partial function: \<open>None\<close> is "does not return".
\<close>

partial_function (option) rdelta_loop ::
  "(masses \<Rightarrow> int \<Rightarrow> error + (masses \<times> real)) \<Rightarrow> real \<Rightarrow> int \<Rightarrow> masses \<Rightarrow> real
     \<Rightarrow> (error + (int \<times> masses)) option" where
  "rdelta_loop block od rdelta_tot m ratio =
     (if ratio > od then
        (case block m (rdelta_tot + 1) of
           Inl e \<Rightarrow> Some (Inl e)
         | Inr (m', ratio') \<Rightarrow> rdelta_loop block od (rdelta_tot + 1) m' ratio')
      else Some (Inr (rdelta_tot, m)))"

text \<open>
  The body of the loop on the state \<open>m\<close>, at the new \<^verbatim>\<open>rdelta_tot\<close>; and the tuple
  \<^verbatim>\<open>(rdelta_tot, mass_tot/Msun, mass_nfw/Msun, mass_dev/Msun, mass_gas/Msun)\<close> that is
  returned.
\<close>

definition loop_block ::
  "externals \<Rightarrow> nemodel \<Rightarrow> clustermeta \<Rightarrow> real \<Rightarrow> real \<Rightarrow> real \<Rightarrow> masses \<Rightarrow> int
     \<Rightarrow> error + (masses \<times> real)" where
  "loop_block X nm cl c rs normsersic m rdelta_tot =
     (case m of (mass_tot, mass_nfw, mass_dev, mass_gas) \<Rightarrow>
        eval_masses X nm cl c rs normsersic (Some mass_dev) (real_of_int rdelta_tot))"

definition in_Msun :: "externals \<Rightarrow> int \<times> masses \<Rightarrow> int \<times> masses" where
  "in_Msun X res =
     (case res of (rdelta_tot, mass_tot, mass_nfw, mass_dev, mass_gas) \<Rightarrow>
        (rdelta_tot, mass_tot / uconv_Msun X, mass_nfw / uconv_Msun X,
         mass_dev / uconv_Msun X, mass_gas / uconv_Msun X))"

text \<open>
  \<^verbatim>\<open>calc_rdelta_p\<close>: the result is \<open>None\<close> when the call does not return, and
  otherwise the error it raised or the tuple it returned.
\<close>

definition calc_rdelta_p ::
  "externals \<Rightarrow> real list \<Rightarrow> nemodel \<Rightarrow> clustermeta \<Rightarrow> (error + (int \<times> masses)) option" where
  "calc_rdelta_p X row nm cl =
     (case py_index row 0 of
        Inl e \<Rightarrow> Some (Inl e)
      | Inr c \<Rightarrow>
          (case py_index row 1 of
             Inl e \<Rightarrow> Some (Inl e)
           | Inr rs \<Rightarrow>
               (case (if count_mstar cl = 1 then py_index row 2 else Inr 0) of
                  Inl e \<Rightarrow> Some (Inl e)
                | Inr normsersic \<Rightarrow>
                    (let mass_dev0 = (if count_mstar cl = 0 then Some 0 else None);
                         rdelta_dm = c * rs
                     in case eval_masses X nm cl c rs normsersic mass_dev0 rdelta_dm of
                          Inl e \<Rightarrow> Some (Inl e)
                        | Inr (m, ratio) \<Rightarrow>
                            map_option (map_sum id (in_Msun X))
                              (rdelta_loop (loop_block X nm cl c rs normsersic)
                                 (cosmo_overdensity X) (py_int rdelta_dm) m ratio)))))"

text \<open>
  The radii at which the search evaluates the masses, in order: the seed \<open>c * rs\<close>,
  then the integers above the truncated seed.
\<close>

definition trial_radius :: "real \<Rightarrow> real \<Rightarrow> nat \<Rightarrow> real" where
  "trial_radius c rs k =
     (if k = 0 then c * rs else real_of_int (py_int (c * rs) + int k))"

text \<open>
  The \<open>k\<close>-th evaluation of the search, \<open>k = 0\<close> being the one at the seed, for a
  sample \<open>(c, rs, normsersic)\<close>: its masses and its ratio, or the error it raises. The
  variable \<^verbatim>\<open>mass_dev\<close> is 0 before every evaluation when the stellar mass is not
  counted, and is assigned by the evaluation when it is.
\<close>

definition search_eval ::
  "externals \<Rightarrow> nemodel \<Rightarrow> clustermeta \<Rightarrow> real \<Rightarrow> real \<Rightarrow> real \<Rightarrow> nat
     \<Rightarrow> error + (masses \<times> real)" where
  "search_eval X nm cl c rs normsersic k =
     eval_masses X nm cl c rs normsersic (if count_mstar cl = 0 then Some 0 else None)
       (trial_radius c rs k)"

text \<open>
  "The \<open>k\<close>-th evaluation returns, and its ratio is above the target": what keeps the
  loop running.
\<close>

definition ratio_above :: "externals \<Rightarrow> nemodel \<Rightarrow> clustermeta \<Rightarrow> real \<Rightarrow> real \<Rightarrow> real \<Rightarrow> nat \<Rightarrow> bool" where
  "ratio_above X nm cl c rs normsersic k =
     (case search_eval X nm cl c rs normsersic k of
        Inl e \<Rightarrow> False
      | Inr (m, ratio) \<Rightarrow> ratio > cosmo_overdensity X)"

text \<open>
  The head of \<^verbatim>\<open>calc_rdelta_p\<close>: \<^verbatim>\<open>c = row[0]\<close>, \<^verbatim>\<open>rs = row[1]\<close>, and
  \<^verbatim>\<open>normsersic = row[2]\<close> or \<^verbatim>\<open>0.\<close> by the flag.
\<close>

definition sample_of :: "clustermeta \<Rightarrow> real list \<Rightarrow> real \<Rightarrow> real \<Rightarrow> real \<Rightarrow> bool" where
  "sample_of cl row c rs normsersic =
     (py_index row 0 = Inr c \<and> py_index row 1 = Inr rs
      \<and> (if count_mstar cl = 1 then py_index row 2 else Inr 0) = Inr normsersic)"

text \<open>
  The evaluation at an integer radius, as the loop makes it, and the invariant of the
  loop: \<^verbatim>\<open>mass_dev\<close> is assigned in every iteration, or is still the 0 it was set to.
\<close>

definition int_eval ::
  "externals \<Rightarrow> nemodel \<Rightarrow> clustermeta \<Rightarrow> real \<Rightarrow> real \<Rightarrow> real \<Rightarrow> int
     \<Rightarrow> error + (masses \<times> real)" where
  "int_eval X nm cl c rs normsersic j =
     eval_masses X nm cl c rs normsersic (if count_mstar cl = 0 then Some 0 else None)
       (real_of_int j)"

definition dev_inv :: "clustermeta \<Rightarrow> masses \<Rightarrow> bool" where
  "dev_inv cl m =
     (case m of (mass_tot, mass_nfw, mass_dev, mass_gas) \<Rightarrow>
        count_mstar cl = 1 \<or> (count_mstar cl = 0 \<and> mass_dev = 0))"

section \<open>Summary of the posterior\<close>

text \<open>
  \<^verbatim>\<open>np.percentile(a, q)\<close> of a non-empty one-dimensional array, for an integer
  percentage \<open>q\<close>, with numpy's default linear interpolation: the virtual index is
  \<open>q / 100 * (n - 1)\<close>, and the result lies between the two order statistics around it.
\<close>

definition np_percentile :: "real list \<Rightarrow> nat \<Rightarrow> real" where
  "np_percentile a q =
     (let s = sort a; n = length s;
          lo = (q * (n - 1)) div 100;
          hi = min (lo + 1) (n - 1);
          frac = real ((q * (n - 1)) mod 100) / 100
      in s ! lo + (s ! hi - s ! lo) * frac)"

text \<open>
  A two-dimensional array is a non-empty list of rows of one length; its columns.
\<close>

definition columns :: "real list list \<Rightarrow> real list list" where
  "columns rows = map (\<lambda>j. map (\<lambda>row. row ! j) rows) [0..<length (hd rows)]"

text \<open>
  \<^verbatim>\<open>map(lambda v: (v[1], v[2]-v[1], v[1]-v[0]), zip(*np.percentile(a, [16, 50, 84],
  axis=0)))\<close>: one triple for each column.
\<close>

definition triple :: "real list \<Rightarrow> real \<times> real \<times> real" where
  "triple col =
     (let v0 = np_percentile col 16; v1 = np_percentile col 50; v2 = np_percentile col 84
      in (v1, v2 - v1, v1 - v0))"

definition triples :: "real list list \<Rightarrow> (real \<times> real \<times> real) list" where
  "triples rows = map triple (columns rows)"

text \<open>
  \<^verbatim>\<open>samples_results\<close>, on non-empty arrays (what numpy does with an empty axis is not
  modelled: the function is given no value there but an error). Unpacking a list of
  triples into the wrong number of names raises; a flag that is neither 1 nor 0 leaves
  \<^verbatim>\<open>c_mcmc\<close> unbound at the first \<^verbatim>\<open>print\<close>.
\<close>

definition samples_results ::
  "real list list \<Rightarrow> real list list \<Rightarrow> clustermeta
     \<Rightarrow> error + (string \<rightharpoonup> real \<times> real \<times> real)" where
  "samples_results samples samples_aux cluster =
     (if samples = [] \<or> samples_aux = [] then Inl ValueError
      else if count_mstar cluster = 1 \<and> length (triples samples) \<noteq> 3 then Inl ValueError
      else if count_mstar cluster = 0 \<and> length (triples samples) \<noteq> 2 then Inl ValueError
      else if length (triples samples_aux) \<noteq> 5 then Inl ValueError
      else if count_mstar cluster \<noteq> 1 \<and> count_mstar cluster \<noteq> 0 then Inl NameError
      else
        (let c_mcmc = triples samples ! 0;
             rs_mcmc = triples samples ! 1;
             rdelta_mcmc = triples samples_aux ! 0;
             mdelta_mcmc = triples samples_aux ! 1;
             mdm_mcmc = triples samples_aux ! 2;
             mstars_mcmc = triples samples_aux ! 3;
             mgas_mcmc = triples samples_aux ! 4;
             mcmc_results =
               [''c'' \<mapsto> c_mcmc, ''rs'' \<mapsto> rs_mcmc, ''rdelta'' \<mapsto> rdelta_mcmc,
                ''mdelta'' \<mapsto> mdelta_mcmc, ''mdm'' \<mapsto> mdm_mcmc, ''mgas'' \<mapsto> mgas_mcmc]
         in if count_mstar cluster = 1
            then Inr (mcmc_results(''normsersic'' \<mapsto> triples samples ! 2,
                                   ''mstars'' \<mapsto> mstars_mcmc))
            else Inr mcmc_results))"

text \<open>
  The summary of the specification for one scalar quantity: the median, the 84th
  percentile minus the median, the median minus the 16th percentile.
\<close>

definition spec_summary :: "real list \<Rightarrow> real \<times> real \<times> real" where
  "spec_summary xs =
     (np_percentile xs 50, np_percentile xs 84 - np_percentile xs 50,
      np_percentile xs 50 - np_percentile xs 16)"

definition column :: "nat \<Rightarrow> real list list \<Rightarrow> real list" where
  "column j rows = map (\<lambda>row. row ! j) rows"

section \<open>Example data\<close>

text \<open>
  A small cluster for the closed examples: two temperature bins, the reference index
  \<open>-1\<close> that \<^verbatim>\<open>example.py\<close> passes, no stellar and no gas mass. The external models
  are simple functions, all constants are 1, and the quadrature is the midpoint rule.
\<close>

definition example_cluster :: clustermeta where
  "example_cluster =
     \<lparr>refindex = - 1, incl_mstar = 0, incl_mgas = 0, count_mstar = 0, cl_z = 0\<rparr>"

definition example_nemodel :: nemodel where
  "example_nemodel = \<lparr>ne_type = ''single_beta'', parvals = [], nefit = [2, 1]\<rparr>"

definition example_tspec :: "tspec_row list" where
  "example_tspec =
     [\<lparr>radius = 10, tspec = 3, tspec_err = 1\<rparr>, \<lparr>radius = 20, tspec = 4, tspec_err = 1\<rparr>]"

definition midpoint_quad :: "(real \<Rightarrow> real option) \<Rightarrow> real \<Rightarrow> real \<Rightarrow> error + real" where
  "midpoint_quad f a b =
     (case f ((a + b) / 2) of None \<Rightarrow> Inl TypeError | Some v \<Rightarrow> Inr ((b - a) * v))"

definition example_externals :: externals where
  "example_externals =
     \<lparr>nfw_mass_model = (\<lambda>r c rs z. r), sersic_mass_model = (\<lambda>r n cm. 0),
      gas_mass_model = (\<lambda>r nm. 0), betamodel = (\<lambda>p r. 1), cuspedbetamodel = (\<lambda>p r. 1),
      doublebetamodel = (\<lambda>p r. 1), doublebetamodel_tied = (\<lambda>p r. 1),
      mgas_intmodel = (\<lambda>r nm. r), calc_rhocrit = (\<lambda>z. 1), quad = midpoint_quad,
      cosmo_overdensity = 1, params_mu = 1, uconv_Msun = 1, uconv_cm_kpc = 1, uconv_mA = 1,
      uconv_G = 1, uconv_cm_m = 1, uconv_joule_kev = 1, uconv_Msun_kg = 1, uconv_kpc_m = 1\<rparr>"

text \<open>
  External models for the examples of the radius search: no gas, a critical density and a
  target overdensity of 1, and a dark-matter mass that makes the mean-density ratio at the
  radius \<open>r\<close> equal to \<open>g r\<close>.
\<close>

definition search_externals :: "(real \<Rightarrow> real) \<Rightarrow> externals" where
  "search_externals g =
     example_externals
       \<lparr>nfw_mass_model := (\<lambda>r c rs z. (4 / 3) * pi * r ^ 3 * g r),
        mgas_intmodel := (\<lambda>r nm. 0)\<rparr>"

text \<open>A ratio that falls below the target at the radius 3, and one that never falls.\<close>

definition falling_ratio :: "real \<Rightarrow> real" where
  "falling_ratio r = (if r < 3 then 2 else 1 / 2)"

definition constant_ratio :: "real \<Rightarrow> real" where
  "constant_ratio r = 2"

text \<open>A chain of two walkers, three steps and two dimensions.\<close>

definition example_chain :: "real list list list" where
  "example_chain = [[[5, 300], [6, 310], [7, 320]], [[4, 290], [3, 280], [2, 270]]]"

text \<open>Five samples of \<open>(c, rs)\<close> and the five derived rows that go with them.\<close>

definition example_samples :: "real list list" where
  "example_samples = [[5, 300], [1, 100], [4, 500], [2, 200], [3, 400]]"

definition example_aux :: "real list list" where
  "example_aux = [[10, 1, 2, 0, 7], [20, 2, 3, 0, 7], [30, 3, 4, 0, 7], [40, 4, 5, 0, 7], [50, 5, 6, 0, 7]]"

section \<open>Properties of the log-prior\<close>

lemma length2_cases: "length xs = 2 \<Longrightarrow> \<exists>a b. xs = [a, b]"
  by (cases xs; cases "tl xs") auto

lemma length3_cases: "length xs = 3 \<Longrightarrow> \<exists>a b c. xs = [a, b, c]"
  by (cases xs; cases "tl xs"; cases "tl (tl xs)") auto

text \<open>
  C2 (as the code has it). For a theta of length 2 or 3, \<open>lnprior\<close> returns exactly 0
  when every component lies strictly inside the open interval between its lower and its
  upper bound, and exactly negative infinity otherwise; a component equal to its lower
  bound is outside. The stellar-mass flag plays no part: only the length of theta does.
\<close>

theorem lnprior_open_interval:
  "length theta = 2 \<or> length theta = 3 \<Longrightarrow>
   lnprior B theta = Some (if spec_inside_open B theta then Fin 0 else NegInf)"
proof (erule disjE)
  assume "length theta = 2"
  then obtain c rs where "theta = [c, rs]" using length2_cases by blast
  then show ?thesis
    by (simp add: lnprior_def spec_inside_open_def bound_pairs_def)
next
  assume "length theta = 3"
  then obtain c rs n where "theta = [c, rs, n]" using length3_cases by blast
  then show ?thesis
    by (simp add: lnprior_def spec_inside_open_def bound_pairs_def)
qed

theorem lnprior_open_interval_witness:
  "lnprior example_bounds [5, 300] = Some (Fin 0)
   \<and> lnprior example_bounds [5, 300, 7] = Some (Fin 0)
   \<and> lnprior example_bounds [5, 900, 7] = Some NegInf"
  using lnprior_open_interval [of "[5, 300]" example_bounds]
    lnprior_open_interval [of "[5, 300, 7]" example_bounds]
    lnprior_open_interval [of "[5, 900, 7]" example_bounds]
  by (simp add: spec_inside_open_def bound_pairs_def example_bounds_def)

text \<open>
  C2 as stated fails at the lower bound: \<open>c = 1\<close> lies in the half-open interval
  \<open>[1, 10)\<close> and \<open>rs = 300\<close> in \<open>[100, 800)\<close>, yet the prior is negative infinity.
\<close>

theorem lnprior_lower_bound_counterexample:
  "spec_inside_halfopen example_bounds [1, 300]
   \<and> lnprior example_bounds [1, 300] = Some NegInf"
  by (simp add: spec_inside_halfopen_def bound_pairs_def example_bounds_def lnprior_def)

text \<open>
  C10 (as the code has it). For a theta whose length is neither 2 nor 3, \<open>lnprior\<close>
  raises nothing: it returns Python's \<open>None\<close>.
\<close>

theorem lnprior_other_length_none:
  "length theta \<noteq> 2 \<Longrightarrow> length theta \<noteq> 3 \<Longrightarrow> lnprior B theta = None"
  by (simp add: lnprior_def)

theorem lnprior_other_length_none_witness:
  "lnprior example_bounds [5] = None"
  using lnprior_other_length_none [of "[5]" example_bounds] by simp

text \<open>
  C10 as stated fails: on a theta of length 1 the call returns normally, with no value,
  where the claim wants an error reported.
\<close>

theorem lnprior_no_error_counterexample:
  "lnprior example_bounds [5] = None \<and> lnprior example_bounds [5, 300, 7, 1] = None"
  by (simp add: lnprior_def)

section \<open>Properties of the temperature model\<close>

lemma Tmodel_step_events:
  "ev \<in> set (snd (Tmodel_step X td nm cm c rs ns ne_ref t_ref r_ref rr)) \<Longrightarrow>
   \<exists>a b. ev = QuadCall rr a b \<and> int rr \<noteq> refindex cm"
  by (auto simp: Tmodel_step_def Let_def split: if_splits sum.splits)

lemma Tmodel_step_ref:
  "int rr = refindex cm \<Longrightarrow>
   Tmodel_step X td nm cm c rs ns ne_ref t_ref r_ref rr = (Inr (tspec (td ! rr)), [])"
  by (simp add: Tmodel_step_def)

lemma Tmodel_loop_result:
  "Tmodel_loop step rrs acc evs = (Inr out, evs') \<Longrightarrow>
   length out = length acc + length rrs
   \<and> take (length acc) out = acc
   \<and> (\<forall>i<length rrs. fst (step (rrs ! i)) = Inr (out ! (length acc + i)))
   \<and> set evs' \<subseteq> set evs \<union> (\<Union>rr \<in> set rrs. set (snd (step rr)))"
proof (induction rrs arbitrary: acc evs)
  case Nil
  then show ?case by simp
next
  case (Cons rr rrs)
  obtain res new where st: "step rr = (res, new)" by (cases "step rr")
  with Cons.prems obtain t where res: "res = Inr t"
    and rec: "Tmodel_loop step rrs (acc @ [t]) (evs @ new) = (Inr out, evs')"
    by (cases res) auto
  note IH = Cons.IH [OF rec]
  have len: "length out = length (acc @ [t]) + length rrs" using IH by simp
  have tk: "take (length (acc @ [t])) out = acc @ [t]" using IH by simp
  have nth_t: "out ! length acc = t"
    using tk len by (metis length_append_singleton lessI nth_append_length nth_take)
  have tk0: "take (length acc) out = acc"
  proof -
    have "take (length acc) (take (length (acc @ [t])) out) = take (length acc) (acc @ [t])"
      by (simp only: tk)
    then show ?thesis by (simp add: min_def)
  qed
  have nths: "\<forall>i<length (rr # rrs). fst (step ((rr # rrs) ! i)) = Inr (out ! (length acc + i))"
  proof (intro allI impI)
    fix i assume i: "i < length (rr # rrs)"
    show "fst (step ((rr # rrs) ! i)) = Inr (out ! (length acc + i))"
    proof (cases i)
      case 0
      then show ?thesis using st res nth_t by simp
    next
      case (Suc j)
      then have "j < length rrs" using i by simp
      then have "fst (step (rrs ! j)) = Inr (out ! (length (acc @ [t]) + j))" using IH by blast
      then show ?thesis using Suc by simp
    qed
  qed
  have evs: "set evs' \<subseteq> set evs \<union> (\<Union>rr \<in> set (rr # rrs). set (snd (step rr)))"
    using IH st by auto
  show ?case using len tk0 nths evs by simp
qed

text \<open>
  With a reference index that is a position of the table, \<open>0 \<le> refindex < len\<close>, a call
  that returns has copied the observed temperature at that position and has made no
  quadrature call for it.
\<close>

lemma Tmodel_func_anchor:
  assumes lo: "0 \<le> refindex cm" and hi: "refindex cm < int (length td)"
    and ret: "Tmodel_func X td nm cm c rs ns = (Inr tfit, evs)"
  shows "length tfit = length td
    \<and> tfit ! nat (refindex cm) = tspec (td ! nat (refindex cm))
    \<and> (\<forall>a b. QuadCall (nat (refindex cm)) a b \<notin> set evs)"
proof -
  from ret obtain ne_ref t_ref r_ref where
    loop: "Tmodel_loop (Tmodel_step X td nm cm c rs ns ne_ref t_ref r_ref) [0..<length td] [] []
             = (Inr tfit, evs)"
    by (auto simp: Tmodel_func_def split: sum.splits)
  let ?step = "Tmodel_step X td nm cm c rs ns ne_ref t_ref r_ref"
  let ?k = "nat (refindex cm)"
  have k: "?k < length td" and kref: "int ?k = refindex cm"
    using lo hi by simp_all
  note R = Tmodel_loop_result [OF loop]
  have len: "length tfit = length td" using R by simp
  have "fst (?step ([0..<length td] ! ?k)) = Inr (tfit ! (length ([] :: real list) + ?k))"
    using R k by (metis length_upt minus_nat.diff_0)
  then have val: "tfit ! ?k = tspec (td ! ?k)"
    using k by (simp add: Tmodel_step_ref [OF kref])
  have "QuadCall ?k a b \<notin> set evs" for a b
  proof
    assume "QuadCall ?k a b \<in> set evs"
    then obtain rr where "QuadCall ?k a b \<in> set (snd (?step rr))"
      using R by auto
    then show False
      using Tmodel_step_events [of "QuadCall ?k a b" X td nm cm c rs ns ne_ref t_ref r_ref rr] kref
      by auto
  qed
  then show ?thesis using len val by blast
qed

text \<open>
  C1, evaluated at the reference index \<open>-1\<close> of \<^verbatim>\<open>example.py\<close>. Python's indexing
  resolves \<open>-1\<close> to the last bin, of radius 20, but no loop index \<open>rr\<close> equals \<open>-1\<close>:
  the branch that copies the observed temperature is never taken, and a quadrature call
  with the bounds \<open>(20, 20)\<close> is made for the reference radius itself.
\<close>

theorem Tmodel_func_negative_refindex:
  "py_index (map radius example_tspec) (refindex example_cluster) = Inr 20
   \<and> snd (Tmodel_func example_externals example_tspec example_nemodel example_cluster 5 300 0)
       = [QuadCall 0 20 10, QuadCall 1 20 20]"
  by (simp add: Tmodel_func_def Tmodel_step_def py_index_def example_cluster_def
      example_nemodel_def example_tspec_def example_externals_def midpoint_quad_def
      intmodel_def upt_rec)

section \<open>Properties of the posterior\<close>

lemma lnlike_logs_call: "LnlikeCall theta \<in> set (snd (lnlike X theta y yerr td nm cm))"
  by (simp add: lnlike_def split: sum.splits prod.splits)

text \<open>
  C5. For every theta of length 2 or 3: when \<open>lnprior\<close> is negative infinity, \<open>lnprob\<close>
  returns negative infinity and causes no event at all, so \<open>lnlike\<close> (which logs every
  entry, \<open>lnlike_logs_call\<close>) is not evaluated; when \<open>lnprior\<close> is a finite \<open>p\<close>,
  \<open>lnprob\<close> returns \<open>p\<close> plus the value of \<open>lnlike\<close> (or raises what \<open>lnlike\<close>
  raises), with the events of that one evaluation.
\<close>

theorem lnprob_short_circuit:
  "length theta = 2 \<or> length theta = 3 \<Longrightarrow>
   (lnprior P theta = Some NegInf \<longrightarrow> lnprob P X theta y yerr td nm cm = (Inr NegInf, []))
   \<and> (\<forall>p. lnprior P theta = Some (Fin p) \<longrightarrow>
        lnprob P X theta y yerr td nm cm =
          (map_sum id (\<lambda>v. Fin (p + v)) (fst (lnlike X theta y yerr td nm cm)),
           snd (lnlike X theta y yerr td nm cm)))"
  by (auto simp add: lnprob_def split: prod.splits sum.splits)

theorem lnprob_short_circuit_witness:
  "lnprob example_bounds example_externals [0, 300] [3, 4] [1, 1] example_tspec example_nemodel
     example_cluster = (Inr NegInf, [])
   \<and> lnprob example_bounds example_externals [5, 300] [3, 4] [1, 1] example_tspec example_nemodel
       example_cluster
     = (map_sum id (\<lambda>v. Fin (0 + v))
          (fst (lnlike example_externals [5, 300] [3, 4] [1, 1] example_tspec example_nemodel
                  example_cluster)),
        snd (lnlike example_externals [5, 300] [3, 4] [1, 1] example_tspec example_nemodel
               example_cluster))"
  using lnprob_short_circuit [of "[0, 300]" example_bounds example_externals "[3, 4]" "[1, 1]"
      example_tspec example_nemodel example_cluster]
    lnprob_short_circuit [of "[5, 300]" example_bounds example_externals "[3, 4]" "[1, 1]"
      example_tspec example_nemodel example_cluster]
  by (simp add: lnprior_def example_bounds_def)

section \<open>Properties of the MCMC stage\<close>

lemma py_slice_from_nonneg: "0 \<le> n \<Longrightarrow> py_slice_from n = drop (nat n)"
  by (rule ext) (simp add: py_slice_from_def)



lemma fit_mcmc_ndim_flag:
  "incl_mstar cm = 1 \<or> incl_mstar cm = 0 \<Longrightarrow>
   fit_mcmc_ndim cm = Inr (if incl_mstar cm = 1 then 3 else 2)"
  by (auto simp: fit_mcmc_ndim_def)



text \<open>
  C8 (as the code has it). When \<open>Nburnin\<close> equals \<open>Nsteps\<close>, \<open>fit_mcmc\<close> returns
  normally, with the empty sample list: it raises nothing.
\<close>

theorem fit_mcmc_full_burnin_empty:
  assumes "incl_mstar cm = 1 \<or> incl_mstar cm = 0"
    and "chain_shape chain Nwalkers Nsteps (if incl_mstar cm = 1 then 3 else 2)"
    and "length ml_results = (if incl_mstar cm = 1 then 3 else 2)"
  shows "fit_mcmc cm ml_results chain (int Nsteps) = Inr []"
proof -
  have "\<forall>w \<in> set chain. drop Nsteps w = []"
    using assms(2) by (auto simp: chain_shape_def list_all_iff)
  then have "concat (map (drop Nsteps) chain) = []"
    by simp
  then show ?thesis
    using fit_mcmc_ndim_flag [OF assms(1)] assms(3)
    by (simp add: fit_mcmc_def py_slice_from_nonneg)
qed

theorem fit_mcmc_full_burnin_empty_witness:
  "fit_mcmc example_cluster [5, 300] example_chain (int 3) = Inr []"
  using fit_mcmc_full_burnin_empty [of example_cluster example_chain 2 3 "[5, 300]"]
  by (simp add: example_cluster_def example_chain_def chain_shape_def)

text \<open>
  C8 as stated fails: with three steps and a burn-in of three, the call is not an error
  but the value \<open>[]\<close>, which the caller receives like any other sample array.
\<close>

theorem fit_mcmc_full_burnin_counterexample:
  "chain_shape example_chain 2 3 2
   \<and> fit_mcmc example_cluster [5, 300] example_chain 3 = Inr []"
  by (simp add: fit_mcmc_def fit_mcmc_ndim_def py_slice_from_def example_cluster_def
      example_chain_def chain_shape_def)

section \<open>Properties of the radius search\<close>

text \<open>
  C4, evaluated at the trial radius 2 with the density integrand \<open>mgas_intmodel r = r\<close>.
  The integrand the code builds ignores its variable: at \<open>x = 1\<close> it is
  \<open>mgas_intmodel 2 = 2\<close>, not \<open>mgas_intmodel 1 = 1\<close>. The gas mass of the code is the
  quadrature of that constant, 4; the quadrature of \<open>mgas_intmodel x\<close> over \<open>(0, 2)\<close>,
  which the claim describes, is 2.
\<close>

theorem gas_integrand_ignores_variable:
  "gas_intfunc example_externals example_nemodel 2 1 = Some 2
   \<and> mgas_intmodel example_externals 1 example_nemodel = 1
   \<and> map_sum id (\<lambda>((mass_tot, mass_nfw, mass_dev, mass_gas), ratio). mass_gas)
        (eval_masses example_externals example_nemodel example_cluster 1 2 0 (Some 0) 2) = Inr 4
   \<and> quad example_externals (\<lambda>x. Some (mgas_intmodel example_externals x example_nemodel)) 0 2
        = Inr 2"
  by (simp add: gas_intfunc_def eval_masses_def example_externals_def midpoint_quad_def
      example_cluster_def)

lemma loop_block_int_eval:
  "dev_inv cl m \<Longrightarrow> loop_block X nm cl c rs ns m j = int_eval X nm cl c rs ns j"
  by (cases m) (auto simp: dev_inv_def loop_block_def int_eval_def eval_masses_def Let_def)

lemma eval_masses_dev_inv:
  "eval_masses X nm cl c rs ns (if count_mstar cl = 0 then Some 0 else None) r = Inr (m, ratio)
   \<Longrightarrow> dev_inv cl m"
  by (auto simp: eval_masses_def dev_inv_def Let_def split: sum.splits option.splits if_splits)

lemma int_eval_dev_inv: "int_eval X nm cl c rs ns j = Inr (m, ratio) \<Longrightarrow> dev_inv cl m"
  unfolding int_eval_def by (rule eval_masses_dev_inv)

lemma search_eval_pos:
  "0 < k \<Longrightarrow> search_eval X nm cl c rs ns k = int_eval X nm cl c rs ns (py_int (c * rs) + int k)"
  by (simp add: search_eval_def int_eval_def trial_radius_def)

lemma loop_run:
  assumes inv: "dev_inv cl m0"
    and first: "od < ratio0"
    and run: "\<forall>j. 1 \<le> j \<and> j < k \<longrightarrow> (\<exists>m r. int_eval X nm cl c rs ns (n + int j) = Inr (m, r) \<and> od < r)"
    and pos: "0 < k"
  shows "rdelta_loop (loop_block X nm cl c rs ns) od n m0 ratio0 =
           (case int_eval X nm cl c rs ns (n + int k) of
              Inl e \<Rightarrow> Some (Inl e)
            | Inr (m, r) \<Rightarrow> rdelta_loop (loop_block X nm cl c rs ns) od (n + int k) m r)"
  using run pos
proof (induction k)
  case 0
  then show ?case by simp
next
  case (Suc k)
  show ?case
  proof (cases "k = 0")
    case True
    have "rdelta_loop (loop_block X nm cl c rs ns) od n m0 ratio0 =
            (case loop_block X nm cl c rs ns m0 (n + 1) of
               Inl e \<Rightarrow> Some (Inl e)
             | Inr (m, r) \<Rightarrow> rdelta_loop (loop_block X nm cl c rs ns) od (n + 1) m r)"
      using first by (subst rdelta_loop.simps) simp
    moreover have "n + int (Suc k) = n + 1"
      using True by simp
    ultimately show ?thesis
      by (simp only: loop_block_int_eval [OF inv])
  next
    case False
    then have kpos: "0 < k" by simp
    have runk: "\<forall>j. 1 \<le> j \<and> j < k \<longrightarrow>
        (\<exists>m r. int_eval X nm cl c rs ns (n + int j) = Inr (m, r) \<and> od < r)"
      using Suc.prems(1) by auto
    obtain m r where atk: "int_eval X nm cl c rs ns (n + int k) = Inr (m, r)" and big: "od < r"
      using Suc.prems(1) kpos by (metis One_nat_def Suc_leI lessI)
    have invk: "dev_inv cl m"
      using atk by (rule int_eval_dev_inv)
    have "rdelta_loop (loop_block X nm cl c rs ns) od n m0 ratio0 =
            rdelta_loop (loop_block X nm cl c rs ns) od (n + int k) m r"
      using Suc.IH [OF runk kpos] atk by simp
    also have "\<dots> = (case loop_block X nm cl c rs ns m (n + int k + 1) of
               Inl e \<Rightarrow> Some (Inl e)
             | Inr (m', r') \<Rightarrow> rdelta_loop (loop_block X nm cl c rs ns) od (n + int k + 1) m' r')"
      using big by (subst rdelta_loop.simps) simp
    finally have "rdelta_loop (loop_block X nm cl c rs ns) od n m0 ratio0 =
        (case int_eval X nm cl c rs ns (n + int k + 1) of
               Inl e \<Rightarrow> Some (Inl e)
             | Inr (m', r') \<Rightarrow> rdelta_loop (loop_block X nm cl c rs ns) od (n + int k + 1) m' r')"
      by (simp only: loop_block_int_eval [OF invk])
    moreover have "n + int (Suc k) = n + int k + 1"
      by simp
    ultimately show ?thesis
      by (simp only:)
  qed
qed

lemma loop_never_returns:
  assumes ret: "rdelta_loop B od n m0 ratio0 = Some y"
    and B: "B = loop_block X nm cl c rs ns"
    and inv: "dev_inv cl m0"
    and big: "od < ratio0"
    and all: "\<forall>j\<ge>1. \<exists>m r. int_eval X nm cl c rs ns (n + int j) = Inr (m, r) \<and> od < r"
  shows False
proof -
  have "B = loop_block X nm cl c rs ns \<longrightarrow> dev_inv cl m0 \<longrightarrow> od < ratio0 \<longrightarrow>
         (\<forall>j\<ge>1. \<exists>m r. int_eval X nm cl c rs ns (n + int j) = Inr (m, r) \<and> od < r) \<longrightarrow> False"
  proof (rule rdelta_loop.raw_induct
      [where P = "\<lambda>B od n m0 ratio0 y. B = loop_block X nm cl c rs ns \<longrightarrow> dev_inv cl m0 \<longrightarrow>
         od < ratio0 \<longrightarrow>
         (\<forall>j\<ge>1. \<exists>m r. int_eval X nm cl c rs ns (n + int j) = Inr (m, r) \<and> od < r) \<longrightarrow> False",
       OF _ ret])
    fix loop :: "(masses \<Rightarrow> int \<Rightarrow> error + (masses \<times> real)) \<Rightarrow> real \<Rightarrow> int \<Rightarrow> masses \<Rightarrow> real
                   \<Rightarrow> (error + (int \<times> masses)) option"
      and block od n m ratio y
    assume IH: "\<And>block od n m ratio y. loop block od n m ratio = Some y \<Longrightarrow>
        block = loop_block X nm cl c rs ns \<longrightarrow> dev_inv cl m \<longrightarrow> od < ratio \<longrightarrow>
         (\<forall>j\<ge>1. \<exists>m r. int_eval X nm cl c rs ns (n + int j) = Inr (m, r) \<and> od < r) \<longrightarrow> False"
      and body: "(if od < ratio
            then case block m (n + 1) of Inl e \<Rightarrow> Some (Inl e)
                 | Inr (m', ratio') \<Rightarrow> loop block od (n + 1) m' ratio'
            else Some (Inr (n, m))) = Some y"
    show "block = loop_block X nm cl c rs ns \<longrightarrow> dev_inv cl m \<longrightarrow> od < ratio \<longrightarrow>
         (\<forall>j\<ge>1. \<exists>m r. int_eval X nm cl c rs ns (n + int j) = Inr (m, r) \<and> od < r) \<longrightarrow> False"
    proof (intro impI)
      assume B: "block = loop_block X nm cl c rs ns" and inv: "dev_inv cl m" and big: "od < ratio"
        and all: "\<forall>j\<ge>1. \<exists>m r. int_eval X nm cl c rs ns (n + int j) = Inr (m, r) \<and> od < r"
      obtain m1 r1 where one: "int_eval X nm cl c rs ns (n + 1) = Inr (m1, r1)" and big1: "od < r1"
        using all [rule_format, of 1] by auto
      have blk: "block m (n + 1) = Inr (m1, r1)"
        using B one by (simp add: loop_block_int_eval [OF inv])
      have rec: "loop block od (n + 1) m1 r1 = Some y"
        using body big blk by simp
      have inv1: "dev_inv cl m1"
        using one by (rule int_eval_dev_inv)
      have all1: "\<forall>j\<ge>1. \<exists>m r. int_eval X nm cl c rs ns (n + 1 + int j) = Inr (m, r) \<and> od < r"
      proof (intro allI impI)
        fix j :: nat assume "1 \<le> j"
        then have "\<exists>m r. int_eval X nm cl c rs ns (n + int (Suc j)) = Inr (m, r) \<and> od < r"
          using all by (meson le_SucI)
        then show "\<exists>m r. int_eval X nm cl c rs ns (n + 1 + int j) = Inr (m, r) \<and> od < r"
          by (simp add: add.commute add.left_commute)
      qed
      show False
        using IH [OF rec] B inv1 big1 all1 by blast
    qed
  qed
  then show False using B inv big all by blast
qed

lemma loop_stop: "\<not> od < ratio \<Longrightarrow> rdelta_loop B od n m ratio = Some (Inr (n, m))"
  by (subst rdelta_loop.simps) simp

lemma ratio_aboveD:
  "ratio_above X nm cl c rs ns k \<Longrightarrow>
   \<exists>m r. search_eval X nm cl c rs ns k = Inr (m, r) \<and> cosmo_overdensity X < r"
  by (auto simp: ratio_above_def split: sum.splits)

lemma calc_rdelta_p_seed:
  assumes "sample_of cl row c rs ns"
  shows "calc_rdelta_p X row nm cl =
     (case search_eval X nm cl c rs ns 0 of
        Inl e \<Rightarrow> Some (Inl e)
      | Inr (m, ratio) \<Rightarrow>
          map_option (map_sum id (in_Msun X))
            (rdelta_loop (loop_block X nm cl c rs ns) (cosmo_overdensity X)
               (py_int (c * rs)) m ratio))"
  using assms
  by (simp add: calc_rdelta_p_def sample_of_def search_eval_def trial_radius_def Let_def)

lemma calc_rdelta_p_unroll:
  assumes sample: "sample_of cl row c rs ns"
    and above: "\<forall>j<k. ratio_above X nm cl c rs ns j"
  shows "calc_rdelta_p X row nm cl =
     (case search_eval X nm cl c rs ns k of
        Inl e \<Rightarrow> Some (Inl e)
      | Inr (m, ratio) \<Rightarrow>
          map_option (map_sum id (in_Msun X))
            (rdelta_loop (loop_block X nm cl c rs ns) (cosmo_overdensity X)
               (py_int (c * rs) + int k) m ratio))"
proof (cases "k = 0")
  case True
  show ?thesis
    unfolding True using calc_rdelta_p_seed [OF sample, of X nm]
    by (cases "search_eval X nm cl c rs ns 0") auto
next
  case False
  then have kpos: "0 < k" by simp
  obtain m0 r0 where seed: "search_eval X nm cl c rs ns 0 = Inr (m0, r0)"
    and big: "cosmo_overdensity X < r0"
    using above kpos ratio_aboveD by blast
  have inv: "dev_inv cl m0"
    using seed unfolding search_eval_def by (rule eval_masses_dev_inv)
  have run: "\<forall>j. 1 \<le> j \<and> j < k \<longrightarrow>
      (\<exists>m r. int_eval X nm cl c rs ns (py_int (c * rs) + int j) = Inr (m, r)
             \<and> cosmo_overdensity X < r)"
  proof (intro allI impI)
    fix j assume j: "1 \<le> j \<and> j < k"
    then have "ratio_above X nm cl c rs ns j" using above by simp
    then show "\<exists>m r. int_eval X nm cl c rs ns (py_int (c * rs) + int j) = Inr (m, r)
             \<and> cosmo_overdensity X < r"
      using ratio_aboveD [of X nm cl c rs ns j] search_eval_pos [of j X nm cl c rs ns] j by simp
  qed
  have "rdelta_loop (loop_block X nm cl c rs ns) (cosmo_overdensity X) (py_int (c * rs)) m0 r0 =
          (case search_eval X nm cl c rs ns k of
             Inl e \<Rightarrow> Some (Inl e)
           | Inr (m, r) \<Rightarrow> rdelta_loop (loop_block X nm cl c rs ns) (cosmo_overdensity X)
                             (py_int (c * rs) + int k) m r)"
    using loop_run [OF inv big run kpos] search_eval_pos [OF kpos, of X nm cl c rs ns]
    by (simp only:)
  then show ?thesis
    using calc_rdelta_p_seed [OF sample] seed
    by (simp split: sum.splits prod.splits)
qed


lemma calc_rdelta_p_diverges:
  assumes sample: "sample_of cl row c rs ns"
    and above: "\<forall>k. ratio_above X nm cl c rs ns k"
  shows "calc_rdelta_p X row nm cl = None"
proof -
  obtain m0 r0 where seed: "search_eval X nm cl c rs ns 0 = Inr (m0, r0)"
    and big: "cosmo_overdensity X < r0"
    using above ratio_aboveD by blast
  have inv: "dev_inv cl m0"
    using seed unfolding search_eval_def by (rule eval_masses_dev_inv)
  have all: "\<forall>j\<ge>1. \<exists>m r. int_eval X nm cl c rs ns (py_int (c * rs) + int j) = Inr (m, r)
      \<and> cosmo_overdensity X < r"
  proof (intro allI impI)
    fix j :: nat assume j: "1 \<le> j"
    show "\<exists>m r. int_eval X nm cl c rs ns (py_int (c * rs) + int j) = Inr (m, r)
             \<and> cosmo_overdensity X < r"
      using ratio_aboveD [of X nm cl c rs ns j] above search_eval_pos [of j X nm cl c rs ns] j
      by simp
  qed
  have "rdelta_loop (loop_block X nm cl c rs ns) (cosmo_overdensity X) (py_int (c * rs)) m0 r0
          = None"
  proof (cases "rdelta_loop (loop_block X nm cl c rs ns) (cosmo_overdensity X)
                  (py_int (c * rs)) m0 r0")
    case None
    then show ?thesis .
  next
    case (Some y)
    then show ?thesis
      using loop_never_returns [OF Some refl inv big all] by simp
  qed
  then show ?thesis
    using calc_rdelta_p_seed [OF sample] seed by simp
qed

lemma calc_rdelta_p_returns:
  assumes sample: "sample_of cl row c rs ns"
    and stop: "\<not> ratio_above X nm cl c rs ns k"
  shows "calc_rdelta_p X row nm cl \<noteq> None"
proof -
  define k0 where "k0 = (LEAST k. \<not> ratio_above X nm cl c rs ns k)"
  have notk0: "\<not> ratio_above X nm cl c rs ns k0"
    unfolding k0_def using stop by (rule LeastI)
  have before: "\<forall>j<k0. ratio_above X nm cl c rs ns j"
    unfolding k0_def using not_less_Least by blast
  show ?thesis
  proof (cases "search_eval X nm cl c rs ns k0")
    case (Inl e)
    then show ?thesis using calc_rdelta_p_unroll [OF sample before] by simp
  next
    case (Inr p)
    obtain m r where p: "p = (m, r)" by (cases p)
    have "\<not> cosmo_overdensity X < r"
      using notk0 Inr p by (simp add: ratio_above_def)
    then show ?thesis
      using calc_rdelta_p_unroll [OF sample before] Inr p by (simp add: loop_stop)
  qed
qed

text \<open>
  C7 (as the code has it). Nothing bounds the number of iterations and no error is raised
  for a search that does not converge: the call fails to return exactly when every
  evaluation returns with a ratio above the target overdensity.
\<close>

theorem calc_rdelta_p_unbounded:
  assumes "sample_of cl row c rs normsersic"
  shows "calc_rdelta_p X row nm cl = None \<longleftrightarrow> (\<forall>k. ratio_above X nm cl c rs normsersic k)"
  using calc_rdelta_p_diverges [OF assms] calc_rdelta_p_returns [OF assms] by blast

lemma search_externals_eval:
  "r \<noteq> 0 \<Longrightarrow>
   eval_masses (search_externals g) nm example_cluster c rs ns (Some 0) r =
     Inr (((4 / 3) * pi * r ^ 3 * g r, (4 / 3) * pi * r ^ 3 * g r, 0, 0), g r)"
  by (simp add: eval_masses_def search_externals_def example_externals_def example_cluster_def
      gas_intfunc_def midpoint_quad_def Let_def)

lemma trial_radius_example: "trial_radius 1 (5 / 2) k = (if k = 0 then 5 / 2 else 2 + real k)"
  by (simp add: trial_radius_def py_int_def)

lemma search_externals_search_eval:
  "trial_radius c rs k \<noteq> 0 \<Longrightarrow>
   search_eval (search_externals g) nm example_cluster c rs ns k =
     Inr (((4 / 3) * pi * trial_radius c rs k ^ 3 * g (trial_radius c rs k),
           (4 / 3) * pi * trial_radius c rs k ^ 3 * g (trial_radius c rs k), 0, 0),
          g (trial_radius c rs k))"
  using search_externals_eval [of "trial_radius c rs k" g nm c rs ns]
  by (simp add: search_eval_def example_cluster_def)

lemma search_externals_ratio_above:
  "trial_radius c rs k \<noteq> 0 \<Longrightarrow>
   ratio_above (search_externals g) nm example_cluster c rs ns k = (1 < g (trial_radius c rs k))"
  by (simp add: ratio_above_def search_externals_search_eval)
     (simp add: search_externals_def example_externals_def)

lemma example_sample: "sample_of example_cluster [c, rs] c rs 0"
  by (simp add: sample_of_def py_index_def example_cluster_def)




lemma constant_ratio_above:
  "ratio_above (search_externals constant_ratio) example_nemodel example_cluster 1 (5 / 2) 0 k"
  by (simp add: search_externals_ratio_above trial_radius_example constant_ratio_def)

text \<open>
  C7 as stated fails: with a ratio of 2 at every radius and a target of 1, the call
  neither returns nor raises.
\<close>

theorem calc_rdelta_p_never_returns_counterexample:
  "calc_rdelta_p (search_externals constant_ratio) [1, 5 / 2] example_nemodel example_cluster = None"
  using calc_rdelta_p_diverges [OF example_sample, where X = "search_externals constant_ratio"
      and nm = example_nemodel and c = 1 and rs = "5 / 2"] constant_ratio_above
  by simp

lemma trial_radius_four: "trial_radius 2 2 k = 4 + real k"
  by (simp add: trial_radius_def py_int_def)

theorem calc_rdelta_p_unbounded_witness:
  "calc_rdelta_p (search_externals constant_ratio) [2, 2] example_nemodel example_cluster = None
   \<and> calc_rdelta_p (search_externals falling_ratio) [2, 2] example_nemodel example_cluster \<noteq> None"
proof -
  have "\<forall>k. ratio_above (search_externals constant_ratio) example_nemodel example_cluster 2 2 0 k"
    by (simp add: search_externals_ratio_above trial_radius_four constant_ratio_def)
  moreover have "\<not> ratio_above (search_externals falling_ratio) example_nemodel example_cluster
      2 2 0 0"
    by (simp add: search_externals_ratio_above trial_radius_four falling_ratio_def)
  ultimately show ?thesis
    using calc_rdelta_p_unbounded [OF example_sample, where X = "search_externals constant_ratio"
        and nm = example_nemodel and c = 2 and rs = 2]
      calc_rdelta_p_unbounded [OF example_sample, where X = "search_externals falling_ratio"
        and nm = example_nemodel and c = 2 and rs = 2]
    by blast
qed

section \<open>Properties of the summary\<close>

lemma triple_spec: "triple col = spec_summary col"
  by (simp add: triple_def spec_summary_def Let_def)

lemma triples_nth:
  "rows \<noteq> [] \<Longrightarrow> list_all (\<lambda>row. length row = n) rows \<Longrightarrow> j < n \<Longrightarrow>
   triples rows ! j = spec_summary (column j rows)"
  by (cases rows) (simp_all add: triples_def columns_def column_def triple_spec)

lemma triples_length:
  "rows \<noteq> [] \<Longrightarrow> list_all (\<lambda>row. length row = n) rows \<Longrightarrow> length (triples rows) = n"
  by (cases rows) (simp_all add: triples_def columns_def)

text \<open>
  C9. For non-empty arrays of samples (3 columns when the stellar mass is counted, 2
  otherwise) and of derived quantities (5 columns), \<open>samples_results\<close> returns a
  dictionary that maps each of \<open>c\<close>, \<open>rs\<close>, \<open>rdelta\<close>, \<open>mdelta\<close>, \<open>mdm\<close>,
  \<open>mgas\<close> to the triple (median, 84th percentile minus median, median minus 16th
  percentile) of its column, the percentiles being numpy's, linearly interpolated; the
  keys \<open>normsersic\<close> and \<open>mstars\<close> are present exactly when the stellar mass is counted.
\<close>

theorem samples_results_summary:
  assumes "samples \<noteq> []" and "samples_aux \<noteq> []"
    and "count_mstar cluster = 1 \<or> count_mstar cluster = 0"
    and "list_all (\<lambda>row. length row = (if count_mstar cluster = 1 then 3 else 2)) samples"
    and "list_all (\<lambda>row. length row = 5) samples_aux"
  shows "\<exists>res. samples_results samples samples_aux cluster = Inr res
     \<and> res ''c'' = Some (spec_summary (column 0 samples))
     \<and> res ''rs'' = Some (spec_summary (column 1 samples))
     \<and> res ''rdelta'' = Some (spec_summary (column 0 samples_aux))
     \<and> res ''mdelta'' = Some (spec_summary (column 1 samples_aux))
     \<and> res ''mdm'' = Some (spec_summary (column 2 samples_aux))
     \<and> res ''mgas'' = Some (spec_summary (column 4 samples_aux))
     \<and> (if count_mstar cluster = 1
         then res ''normsersic'' = Some (spec_summary (column 2 samples))
              \<and> res ''mstars'' = Some (spec_summary (column 3 samples_aux))
         else res ''normsersic'' = None \<and> res ''mstars'' = None)
     \<and> dom res = {''c'', ''rs'', ''rdelta'', ''mdelta'', ''mdm'', ''mgas''}
                  \<union> (if count_mstar cluster = 1 then {''normsersic'', ''mstars''} else {})"
proof -
  let ?n = "if count_mstar cluster = 1 then 3 else 2 :: nat"
  have ls: "length (triples samples) = ?n"
    using triples_length [OF assms(1) assms(4)] .
  have la: "length (triples samples_aux) = 5"
    using triples_length [OF assms(2) assms(5)] .
  have s: "\<And>j. j < ?n \<Longrightarrow> triples samples ! j = spec_summary (column j samples)"
    using triples_nth [OF assms(1) assms(4)] .
  have a: "\<And>j. j < 5 \<Longrightarrow> triples samples_aux ! j = spec_summary (column j samples_aux)"
    using triples_nth [OF assms(2) assms(5)] .
  show ?thesis
  proof (cases "count_mstar cluster = 1")
    case True
    then have "samples_results samples samples_aux cluster =
        Inr ([''c'' \<mapsto> triples samples ! 0, ''rs'' \<mapsto> triples samples ! 1,
              ''rdelta'' \<mapsto> triples samples_aux ! 0, ''mdelta'' \<mapsto> triples samples_aux ! 1,
              ''mdm'' \<mapsto> triples samples_aux ! 2, ''mgas'' \<mapsto> triples samples_aux ! 4,
              ''normsersic'' \<mapsto> triples samples ! 2, ''mstars'' \<mapsto> triples samples_aux ! 3])"
      using assms(1,2) ls la by (simp add: samples_results_def Let_def)
    moreover have "triples samples ! 0 = spec_summary (column 0 samples)"
      "triples samples ! 1 = spec_summary (column 1 samples)"
      "triples samples ! 2 = spec_summary (column 2 samples)"
      using s True by simp_all
    moreover have "triples samples_aux ! 0 = spec_summary (column 0 samples_aux)"
      "triples samples_aux ! 1 = spec_summary (column 1 samples_aux)"
      "triples samples_aux ! 2 = spec_summary (column 2 samples_aux)"
      "triples samples_aux ! 3 = spec_summary (column 3 samples_aux)"
      "triples samples_aux ! 4 = spec_summary (column 4 samples_aux)"
      using a by simp_all
    ultimately show ?thesis using True by auto
  next
    case False
    then have z: "count_mstar cluster = 0" using assms(3) by simp
    then have "samples_results samples samples_aux cluster =
        Inr ([''c'' \<mapsto> triples samples ! 0, ''rs'' \<mapsto> triples samples ! 1,
              ''rdelta'' \<mapsto> triples samples_aux ! 0, ''mdelta'' \<mapsto> triples samples_aux ! 1,
              ''mdm'' \<mapsto> triples samples_aux ! 2, ''mgas'' \<mapsto> triples samples_aux ! 4])"
      using assms(1,2) ls la by (simp add: samples_results_def Let_def)
    moreover have "triples samples ! 0 = spec_summary (column 0 samples)"
      "triples samples ! 1 = spec_summary (column 1 samples)"
      using s z by simp_all
    moreover have "triples samples_aux ! 0 = spec_summary (column 0 samples_aux)"
      "triples samples_aux ! 1 = spec_summary (column 1 samples_aux)"
      "triples samples_aux ! 2 = spec_summary (column 2 samples_aux)"
      "triples samples_aux ! 4 = spec_summary (column 4 samples_aux)"
      using a by simp_all
    ultimately show ?thesis using z by auto
  qed
qed

lemma ex_c: "spec_summary (column 0 example_samples) = (3, 34/25, 34/25)"
  by (simp add: spec_summary_def column_def example_samples_def np_percentile_def Let_def)

lemma ex_rs: "spec_summary (column 1 example_samples) = (300, 136, 136)"
  by (simp add: spec_summary_def column_def example_samples_def np_percentile_def Let_def)

theorem samples_results_summary_witness:
  "\<exists>res. samples_results example_samples example_aux example_cluster = Inr res
     \<and> res ''c'' = Some (3, 34 / 25, 34 / 25)
     \<and> res ''rs'' = Some (300, 136, 136)
     \<and> res ''mstars'' = None"
proof -
  have h1: "example_samples \<noteq> []" and h2: "example_aux \<noteq> []"
    by (simp_all add: example_samples_def example_aux_def)
  have h3: "count_mstar example_cluster = 1 \<or> count_mstar example_cluster = 0"
    by (simp add: example_cluster_def)
  have flag: "count_mstar example_cluster \<noteq> 1"
    by (simp add: example_cluster_def)
  have h4: "list_all (\<lambda>row. length row = (if count_mstar example_cluster = 1 then 3 else 2))
              example_samples"
    by (simp add: example_samples_def example_cluster_def)
  have h5: "list_all (\<lambda>row. length row = 5) example_aux"
    by (simp add: example_aux_def)
  from samples_results_summary [OF h1 h2 h3 h4 h5]
  obtain res where r: "samples_results example_samples example_aux example_cluster = Inr res"
    and c: "res ''c'' = Some (spec_summary (column 0 example_samples))"
    and rs: "res ''rs'' = Some (spec_summary (column 1 example_samples))"
    and st: "if count_mstar example_cluster = 1
         then res ''normsersic'' = Some (spec_summary (column 2 example_samples))
              \<and> res ''mstars'' = Some (spec_summary (column 3 example_aux))
         else res ''normsersic'' = None \<and> res ''mstars'' = None"
    by blast
  have "res ''mstars'' = None"
    using st flag by simp
  then show ?thesis
    using r c rs ex_c ex_rs by simp
qed

end
